theory Spec2Isabelle
  imports Complex_Main
begin

section \<open>JavaScript numbers and form fields\<close>

text \<open>
  The calculators of \<^verbatim>\<open>BMICalculator.tsx\<close> and \<^verbatim>\<open>FitnessCalculator.tsx\<close> compute with
  JavaScript numbers. A number is modelled as \<open>NaN\<close> or a finite value \<open>Fin x\<close> with
  \<open>x\<close> an exact real: the arithmetic below is the exact arithmetic that binary64
  approximates, and a decimal literal of the source stands for the decimal it spells.
  Rounding error, overflow to \<open>Infinity\<close> and the sign of zero are not part of the model.
  \<open>NaN\<close> is part of it, because the program can produce one.
\<close>

datatype number = NaN | Fin real

instantiation number :: "{plus, minus, times, inverse}"
begin

fun plus_number :: "number \<Rightarrow> number \<Rightarrow> number" where
  "Fin x + Fin y = Fin (x + y)"
| "_ + _ = NaN"

fun minus_number :: "number \<Rightarrow> number \<Rightarrow> number" where
  "Fin x - Fin y = Fin (x - y)"
| "_ - _ = NaN"

fun times_number :: "number \<Rightarrow> number \<Rightarrow> number" where
  "Fin x * Fin y = Fin (x * y)"
| "_ * _ = NaN"

text \<open>
  Every divisor of the program is one of the literals 10, 12 and 100, or the squared
  height that \<open>calculateBMI\<close> has compared with 0 before. A finite number is therefore
  never divided by zero here; the equation for that case, where JavaScript would give
  an infinity or \<open>NaN\<close>, is not reached by any function below.
\<close>

fun divide_number :: "number \<Rightarrow> number \<Rightarrow> number" where
  "Fin x div Fin y = (if y = 0 then NaN else Fin (x / y))"
| "_ div _ = NaN"

definition inverse_number :: "number \<Rightarrow> number" where
  "inverse_number x = Fin 1 div x"

instance ..

end

text \<open>\<^verbatim>\<open>Math.round\<close> rounds to the nearest integer, a tie towards plus infinity.\<close>

fun Math_round :: "number \<Rightarrow> number" where
  "Math_round (Fin x) = Fin (of_int \<lfloor>x + 1 / 2\<rfloor>)"
| "Math_round NaN = NaN"

fun Math_floor :: "number \<Rightarrow> number" where
  "Math_floor (Fin x) = Fin (of_int \<lfloor>x\<rfloor>)"
| "Math_floor NaN = NaN"

text \<open>
  The remainder operator \<^verbatim>\<open>%\<close> truncates the quotient towards zero, so the result has
  the sign of the dividend; a zero divisor gives \<open>NaN\<close>.
\<close>

definition trunc :: "real \<Rightarrow> int" where
  "trunc q = (if 0 \<le> q then \<lfloor>q\<rfloor> else \<lceil>q\<rceil>)"

fun rem :: "number \<Rightarrow> number \<Rightarrow> number" where
  "rem (Fin x) (Fin y) = (if y = 0 then NaN else Fin (x - y * of_int (trunc (x / y))))"
| "rem _ _ = NaN"

text \<open>The comparisons \<^verbatim>\<open><\<close>, \<^verbatim>\<open>>\<close>, \<^verbatim>\<open><=\<close> and \<^verbatim>\<open>>=\<close>: false as soon as one side is \<open>NaN\<close>.\<close>

fun lt :: "number \<Rightarrow> number \<Rightarrow> bool" where
  "lt (Fin x) (Fin y) = (x < y)"
| "lt _ _ = False"

fun gt :: "number \<Rightarrow> number \<Rightarrow> bool" where
  "gt (Fin x) (Fin y) = (x > y)"
| "gt _ _ = False"

fun le :: "number \<Rightarrow> number \<Rightarrow> bool" where
  "le (Fin x) (Fin y) = (x \<le> y)"
| "le _ _ = False"

fun ge :: "number \<Rightarrow> number \<Rightarrow> bool" where
  "ge (Fin x) (Fin y) = (x \<ge> y)"
| "ge _ _ = False"

text \<open>
  A numeric form field has the type \<^verbatim>\<open>number | ''\<close>: \<open>Empty\<close> is the empty string, the
  absent value.
\<close>

datatype field = Empty | Num number

text \<open>\<^verbatim>\<open>x === '' ? 0 : x\<close>\<close>

fun orZero :: "field \<Rightarrow> number" where
  "orZero Empty = Fin 0"
| "orZero (Num n) = n"

datatype Units = metric | imperial

definition LBS_TO_KG :: number where "LBS_TO_KG = Fin 0.453592"
definition KG_TO_LBS :: number where "KG_TO_LBS = Fin 2.20462"
definition IN_TO_CM :: number where "IN_TO_CM = Fin 2.54"
definition CM_TO_IN :: number where "CM_TO_IN = Fin 0.393701"
definition FT_TO_IN :: number where "FT_TO_IN = Fin 12"

section \<open>The state of a calculator\<close>

text \<open>
  Both components hold the same five input hooks and \<open>showResult\<close>; the functions on
  them (\<open>weightKg\<close>, \<open>heightCm\<close>, \<open>handleInputChange\<close>, \<open>toggleUnits\<close>) have the same
  body in both files, so they are written once, on the common part of the record.
\<close>

record form =
  units :: Units
  weightInput :: field
  heightCmInput :: field
  heightFtInput :: field
  heightInInput :: field
  showResult :: bool

text \<open>\<^verbatim>\<open>BMICalculator\<close>: \<open>None\<close> is \<^verbatim>\<open>null\<close>.\<close>

record bmi_state = form +
  bmi :: "number option"
  bmiCategoryKey :: "string option"

text \<open>
  \<^verbatim>\<open>FitnessCalculator\<close>. \<open>gender\<close> and \<open>activityLevel\<close> are strings at run time: the
  select handler stores \<^verbatim>\<open>e.target.value\<close> and \<open>loadState\<close> restores whatever string the
  storage holds, so the model keeps them as strings.
\<close>

record tdee_state = form +
  age :: field
  gender :: string
  activityLevel :: string
  tdee :: "number option"

subsection \<open>Canonical values\<close>

definition weightKg :: "'a form_scheme \<Rightarrow> field" where
  "weightKg s =
     (case weightInput s of
        Empty \<Rightarrow> Empty
      | Num w \<Rightarrow> Num (if units s = metric then w else w * LBS_TO_KG))"

definition heightCm :: "'a form_scheme \<Rightarrow> field" where
  "heightCm s =
     (if units s = metric then
        (if heightCmInput s = Empty then Empty else heightCmInput s)
      else if heightFtInput s = Empty \<and> heightInInput s = Empty then Empty
      else
        (let ft = orZero (heightFtInput s);
             inches = orZero (heightInInput s)
         in Num ((ft * FT_TO_IN + inches) * IN_TO_CM)))"

section \<open>The BMI engine\<close>

definition bmi_absent :: "bmi_state \<Rightarrow> bmi_state" where
  "bmi_absent s = s\<lparr>showResult := False, bmi := None, bmiCategoryKey := None\<rparr>"

definition categoryKey :: "number \<Rightarrow> string" where
  "categoryKey roundedBmi =
     (if lt roundedBmi (Fin 18.5) then ''underweight''
      else if lt roundedBmi (Fin 25) then ''normalWeight''
      else if lt roundedBmi (Fin 30) then ''overweight''
      else ''obesity'')"

definition calculateBMI :: "bmi_state \<Rightarrow> bmi_state" where
  "calculateBMI s =
     (case (weightKg s, heightCm s) of
        (Num w, Num h) \<Rightarrow>
          if h = Fin 0 then bmi_absent s
          else
            (let heightInMeters = h / Fin 100;
                 calculatedBmi = w / (heightInMeters * heightInMeters);
                 roundedBmi = Math_round (calculatedBmi * Fin 10) / Fin 10
             in s\<lparr>showResult := True, bmi := Some roundedBmi,
                  bmiCategoryKey := Some (categoryKey roundedBmi)\<rparr>)
      | _ \<Rightarrow> bmi_absent s)"

text \<open>The body of the memo that recalculates when \<open>weightKg\<close> or \<open>heightCm\<close> changes.\<close>

definition bmi_recalculate :: "bmi_state \<Rightarrow> bmi_state" where
  "bmi_recalculate s =
     (if weightKg s \<noteq> Empty \<and> heightCm s \<noteq> Empty \<and> heightCm s \<noteq> Num (Fin 0)
      then calculateBMI s else bmi_absent s)"

definition bmi_default :: bmi_state where
  "bmi_default =
     \<lparr>units = metric, weightInput = Empty, heightCmInput = Empty, heightFtInput = Empty,
      heightInInput = Empty, showResult = False, bmi = None, bmiCategoryKey = None\<rparr>"

section \<open>The TDEE engine\<close>

text \<open>
  The object literal \<open>activityFactors\<close>. \<open>None\<close> is a lookup that yields no number:
  \<^verbatim>\<open>undefined\<close> for a key the object does not have (or a member inherited from
  \<^verbatim>\<open>Object.prototype\<close>); multiplied with a number, either gives \<open>NaN\<close>.
\<close>

definition activityFactors :: "string \<Rightarrow> number option" where
  "activityFactors =
     map_of [(''sedentary'', Fin 1.2), (''light'', Fin 1.375), (''moderate'', Fin 1.55),
             (''active'', Fin 1.725), (''extra'', Fin 1.9)]"

definition tdee_absent :: "tdee_state \<Rightarrow> tdee_state" where
  "tdee_absent s = s\<lparr>showResult := False, tdee := None\<rparr>"

definition calculateTDEE :: "tdee_state \<Rightarrow> tdee_state" where
  "calculateTDEE s =
     (case (age s, weightKg s, heightCm s) of
        (Num a, Num w, Num h) \<Rightarrow>
          (let bmr =
                 (if gender s = ''male''
                  then Fin 10 * w + Fin 6.25 * h - Fin 5 * a + Fin 5
                  else Fin 10 * w + Fin 6.25 * h - Fin 5 * a - Fin 161);
               calculatedTdee =
                 (case activityFactors (activityLevel s) of
                    Some factor \<Rightarrow> bmr * factor
                  | None \<Rightarrow> NaN)
           in s\<lparr>showResult := True, tdee := Some (Math_round calculatedTdee)\<rparr>)
      | _ \<Rightarrow> tdee_absent s)"

definition tdee_recalculate :: "tdee_state \<Rightarrow> tdee_state" where
  "tdee_recalculate s =
     (if age s \<noteq> Empty \<and> weightKg s \<noteq> Empty \<and> heightCm s \<noteq> Empty
      then calculateTDEE s else tdee_absent s)"

definition tdee_default :: tdee_state where
  "tdee_default =
     \<lparr>units = metric, weightInput = Empty, heightCmInput = Empty, heightFtInput = Empty,
      heightInInput = Empty, showResult = False, age = Empty, gender = ''male'',
      activityLevel = ''sedentary'', tdee = None\<rparr>"

section \<open>Input handlers\<close>

subsection \<open>The pattern of a numeric field\<close>

definition digit :: "char \<Rightarrow> bool" where
  "digit c = (c \<in> set ''0123456789'')"

text \<open>
  \<^verbatim>\<open>/^[0-9]*\.?[0-9]*$/.test(value)\<close>: after the longest run of digits the text ends, or
  a dot follows and only digits follow the dot.
\<close>

definition numeric_pattern :: "string \<Rightarrow> bool" where
  "numeric_pattern v =
     (case dropWhile digit v of
        [] \<Rightarrow> True
      | c # r \<Rightarrow> c = CHR ''.'' \<and> list_all digit r)"

text \<open>The language of the regular expression, as the expression reads.\<close>

definition in_pattern_language :: "string \<Rightarrow> bool" where
  "in_pattern_language v =
     (\<exists>a b. list_all digit a \<and> list_all digit b \<and> (v = a @ b \<or> v = a @ ''.'' @ b))"

definition digit_value :: "char \<Rightarrow> int" where
  "digit_value c = of_char c - 48"

definition decimal :: "string \<Rightarrow> int" where
  "decimal ds = foldl (\<lambda>n c. 10 * n + digit_value c) 0 ds"

text \<open>
  \<^verbatim>\<open>Number(value)\<close> on a text of the pattern, the only texts \<open>handleInputChange\<close>
  converts: the digits before the dot and the digits after it give the decimal they
  spell; a text with no digit is \<open>0\<close> when it is empty and \<open>NaN\<close> when it is the lone dot.
  On a text outside the pattern this function is not JavaScript's conversion.
\<close>

definition Number :: "string \<Rightarrow> number" where
  "Number v =
     (let ip = takeWhile digit v;
          fp = drop 1 (dropWhile digit v)
      in if ip = [] \<and> fp = [] then (if v = [] then Fin 0 else NaN)
         else Fin (real_of_int (decimal ip) + real_of_int (decimal fp) / 10 ^ length fp))"

subsection \<open>Setters and the change handlers\<close>

definition setWeightInput :: "field \<Rightarrow> 'a form_scheme \<Rightarrow> 'a form_scheme" where
  "setWeightInput x s = s\<lparr>weightInput := x\<rparr>"

definition setHeightCmInput :: "field \<Rightarrow> 'a form_scheme \<Rightarrow> 'a form_scheme" where
  "setHeightCmInput x s = s\<lparr>heightCmInput := x\<rparr>"

definition setHeightFtInput :: "field \<Rightarrow> 'a form_scheme \<Rightarrow> 'a form_scheme" where
  "setHeightFtInput x s = s\<lparr>heightFtInput := x\<rparr>"

definition setHeightInInput :: "field \<Rightarrow> 'a form_scheme \<Rightarrow> 'a form_scheme" where
  "setHeightInInput x s = s\<lparr>heightInInput := x\<rparr>"

definition setAge :: "field \<Rightarrow> tdee_state \<Rightarrow> tdee_state" where
  "setAge x s = s\<lparr>age := x\<rparr>"

definition setGender :: "string \<Rightarrow> tdee_state \<Rightarrow> tdee_state" where
  "setGender x s = s\<lparr>gender := x\<rparr>"

definition setActivityLevel :: "string \<Rightarrow> tdee_state \<Rightarrow> tdee_state" where
  "setActivityLevel x s = s\<lparr>activityLevel := x\<rparr>"

text \<open>
  \<open>handleInputChange setter\<close> applied to an event whose \<^verbatim>\<open>e.target.value\<close> is \<open>v\<close>. The
  result is hidden whether or not the text is accepted.
\<close>

definition handleInputChange ::
  "(field \<Rightarrow> 'a form_scheme \<Rightarrow> 'a form_scheme) \<Rightarrow> string \<Rightarrow> 'a form_scheme \<Rightarrow> 'a form_scheme"
where
  "handleInputChange setter v s =
     (let s' = (if v = [] \<or> numeric_pattern v
                then setter (if v = [] then Empty else Num (Number v)) s
                else s)
      in s'\<lparr>showResult := False\<rparr>)"

definition handleSelectChange ::
  "(string \<Rightarrow> tdee_state \<Rightarrow> tdee_state) \<Rightarrow> string \<Rightarrow> tdee_state \<Rightarrow> tdee_state"
where
  "handleSelectChange setter v s = (setter v s)\<lparr>showResult := False\<rparr>"

subsection \<open>The unit toggle\<close>

text \<open>
  The handler reads the hooks of the render it was created in (\<open>s\<close>) and queues its
  updates; \<open>convertWeight\<close> is the weight update of either branch.
\<close>

definition convertWeight :: "number \<Rightarrow> 'a form_scheme \<Rightarrow> 'a form_scheme \<Rightarrow> 'a form_scheme" where
  "convertWeight factor s t =
     (case weightInput s of
        Empty \<Rightarrow> t
      | Num w \<Rightarrow> t\<lparr>weightInput := Num (Math_round (w * factor * Fin 10) / Fin 10)\<rparr>)"

definition toggleUnits :: "'a form_scheme \<Rightarrow> 'a form_scheme" where
  "toggleUnits s =
     (let newUnits = (if units s = metric then imperial else metric);
          s1 = s\<lparr>units := newUnits\<rparr>;
          s2 =
            (if newUnits = imperial then
               (let s3 = convertWeight KG_TO_LBS s s1
                in case heightCmInput s of
                     Empty \<Rightarrow> s3
                   | Num c \<Rightarrow>
                       (let totalInches = c * CM_TO_IN;
                            feet = Math_floor (totalInches / FT_TO_IN);
                            inches = Math_round (rem totalInches FT_TO_IN * Fin 10) / Fin 10
                        in s3\<lparr>heightFtInput := Num feet, heightInInput := Num inches,
                              heightCmInput := Empty\<rparr>))
             else
               (let s3 = convertWeight LBS_TO_KG s s1;
                    ft = orZero (heightFtInput s);
                    inches = orZero (heightInInput s)
                in if gt ft (Fin 0) \<or> gt inches (Fin 0) then
                     (let totalCm = (ft * FT_TO_IN + inches) * IN_TO_CM
                      in s3\<lparr>heightCmInput := Num (Math_round totalCm),
                            heightFtInput := Empty, heightInInput := Empty\<rparr>)
                   else s3))
      in s2\<lparr>showResult := False\<rparr>)"

section \<open>Persistence\<close>

text \<open>
  The text of a storage slot is represented by what \<^verbatim>\<open>JSON.parse\<close> makes of it.
  \<^verbatim>\<open>JSON.stringify\<close> writes a number field as a number, the empty string as \<^verbatim>\<open>""\<close> and
  \<open>NaN\<close> as \<^verbatim>\<open>null\<close>. A property is \<open>None\<close> when it is missing or \<^verbatim>\<open>null\<close>, the two
  cases \<^verbatim>\<open>??\<close> replaces by its default. The model covers the slots whose properties, where
  present, have the types the components write: a number or \<^verbatim>\<open>""\<close> for a numeric field, a
  string for \<open>units\<close>, \<open>gender\<close> and \<open>activityLevel\<close>.
\<close>

datatype json_field = JEmptyString | JNumber real

fun stringify_field :: "field \<Rightarrow> json_field option" where
  "stringify_field Empty = Some JEmptyString"
| "stringify_field (Num (Fin x)) = Some (JNumber x)"
| "stringify_field (Num NaN) = None"

text \<open>\<^verbatim>\<open>parsedState.x ?? ''\<close>\<close>

fun orEmptyString :: "json_field option \<Rightarrow> field" where
  "orEmptyString None = Empty"
| "orEmptyString (Some JEmptyString) = Empty"
| "orEmptyString (Some (JNumber x)) = Num (Fin x)"

fun units_string :: "Units \<Rightarrow> string" where
  "units_string metric = ''metric''"
| "units_string imperial = ''imperial''"

text \<open>The object under the key \<^verbatim>\<open>bmiCalculatorState_v2\<close>, property by property.\<close>

record bmi_json =
  b_weight :: "json_field option"
  b_heightCm :: "json_field option"
  b_heightFt :: "json_field option"
  b_heightIn :: "json_field option"
  b_units :: "string option"

text \<open>The object under the key \<^verbatim>\<open>tdeeCalculatorState\<close>; its height in cm is \<^verbatim>\<open>height\<close>.\<close>

record tdee_json =
  t_age :: "json_field option"
  t_gender :: "string option"
  t_weight :: "json_field option"
  t_height :: "json_field option"
  t_activityLevel :: "string option"
  t_units :: "string option"
  t_heightIn :: "json_field option"
  t_heightFt :: "json_field option"

text \<open>
  A stored text does not parse (\<open>Unparsable\<close>), parses to a value that is not an object
  (\<open>NotAnObject\<close>: \<^verbatim>\<open>null\<close>, a number, a string, a boolean) or parses to an object.
\<close>

datatype 'o item = Unparsable | NotAnObject | Object 'o

text \<open>
  \<^verbatim>\<open>localStorage\<close>: the two slots, each \<open>None\<close> while \<^verbatim>\<open>getItem\<close> returns \<^verbatim>\<open>null\<close>, and whether
  \<^verbatim>\<open>getItem\<close> and \<^verbatim>\<open>setItem\<close> throw (storage disabled, quota exceeded).
\<close>

record storage =
  getItem_throws :: bool
  setItem_throws :: bool
  bmiCalculatorState_v2 :: "bmi_json item option"
  tdeeCalculatorState :: "tdee_json item option"

text \<open>
  \<open>loadBMIState\<close>, followed by the \<^verbatim>\<open>useState\<close> calls that take its fields as the initial
  values of the hooks.
\<close>

definition loadBMIState :: "storage \<Rightarrow> bmi_state" where
  "loadBMIState st =
     (if getItem_throws st then bmi_default
      else case bmiCalculatorState_v2 st of
        None \<Rightarrow> bmi_default
      | Some Unparsable \<Rightarrow> bmi_default
      | Some NotAnObject \<Rightarrow> bmi_default
      | Some (Object parsedState) \<Rightarrow>
          bmi_default
            \<lparr>units := (if b_units parsedState = Some ''imperial'' then imperial else metric),
             weightInput := orEmptyString (b_weight parsedState),
             heightCmInput := orEmptyString (b_heightCm parsedState),
             heightFtInput := orEmptyString (b_heightFt parsedState),
             heightInInput := orEmptyString (b_heightIn parsedState)\<rparr>)"

text \<open>The effect's \<open>currentState\<close> object, handed to \<open>saveBMIState\<close>.\<close>

definition saveBMIState :: "bmi_state \<Rightarrow> storage \<Rightarrow> storage" where
  "saveBMIState s st =
     (if setItem_throws st then st
      else st\<lparr>bmiCalculatorState_v2 :=
                Some (Object
                  \<lparr>b_weight = stringify_field (weightInput s),
                   b_heightCm = stringify_field (heightCmInput s),
                   b_heightFt = stringify_field (heightFtInput s),
                   b_heightIn = stringify_field (heightInInput s),
                   b_units = Some (units_string (units s))\<rparr>)\<rparr>)"

definition loadState :: "storage \<Rightarrow> tdee_state" where
  "loadState st =
     (if getItem_throws st then tdee_default
      else case tdeeCalculatorState st of
        None \<Rightarrow> tdee_default
      | Some Unparsable \<Rightarrow> tdee_default
      | Some NotAnObject \<Rightarrow> tdee_default
      | Some (Object parsedState) \<Rightarrow>
          tdee_default
            \<lparr>units := (if t_units parsedState = Some ''imperial'' then imperial else metric),
             weightInput := orEmptyString (t_weight parsedState),
             heightCmInput := orEmptyString (t_height parsedState),
             heightFtInput := orEmptyString (t_heightFt parsedState),
             heightInInput := orEmptyString (t_heightIn parsedState),
             age := orEmptyString (t_age parsedState),
             gender := (case t_gender parsedState of None \<Rightarrow> ''male'' | Some g \<Rightarrow> g),
             activityLevel :=
               (case t_activityLevel parsedState of None \<Rightarrow> ''sedentary'' | Some a \<Rightarrow> a)\<rparr>)"

definition saveState :: "tdee_state \<Rightarrow> storage \<Rightarrow> storage" where
  "saveState s st =
     (if setItem_throws st then st
      else st\<lparr>tdeeCalculatorState :=
                Some (Object
                  \<lparr>t_age = stringify_field (age s),
                   t_gender = Some (gender s),
                   t_weight = stringify_field (weightInput s),
                   t_height = stringify_field (heightCmInput s),
                   t_activityLevel = Some (activityLevel s),
                   t_units = Some (units_string (units s)),
                   t_heightIn = stringify_field (heightInInput s),
                   t_heightFt = stringify_field (heightFtInput s)\<rparr>)\<rparr>)"

section \<open>Events\<close>

text \<open>
  What a user can do to a mounted component: change the text of an input, pick a gender
  or an activity level, press the unit button, submit the form, reload the page. The
  attributes \<^verbatim>\<open>required\<close>, \<^verbatim>\<open>min\<close>, \<^verbatim>\<open>max\<close> and \<^verbatim>\<open>step\<close> of the inputs are read by form
  validation only, which can keep a submit from happening and nothing else; the model
  lets every submit through.
\<close>

datatype event =
    ChangeWeight string
  | ChangeHeightCm string
  | ChangeHeightFt string
  | ChangeHeightIn string
  | ChangeAge string
  | SelectGender string
  | SelectActivityLevel string
  | Toggle
  | Submit
  | Reload

text \<open>The hooks the saving effect depends on.\<close>

definition inputs :: "'a form_scheme \<Rightarrow> Units \<times> field \<times> field \<times> field \<times> field" where
  "inputs s = (units s, weightInput s, heightCmInput s, heightFtInput s, heightInInput s)"

subsection \<open>The BMI calculator\<close>

text \<open>
  The cm input is rendered in metric units only, the ft and in inputs in imperial units
  only; the BMI form has no age, gender or activity control.
\<close>

fun bmi_rendered :: "event \<Rightarrow> bmi_state \<Rightarrow> bool" where
  "bmi_rendered (ChangeHeightCm v) s = (units s = metric)"
| "bmi_rendered (ChangeHeightFt v) s = (units s = imperial)"
| "bmi_rendered (ChangeHeightIn v) s = (units s = imperial)"
| "bmi_rendered (ChangeAge v) s = False"
| "bmi_rendered (SelectGender v) s = False"
| "bmi_rendered (SelectActivityLevel v) s = False"
| "bmi_rendered e s = True"

fun bmi_handler :: "event \<Rightarrow> bmi_state \<Rightarrow> bmi_state" where
  "bmi_handler (ChangeWeight v) s = handleInputChange setWeightInput v s"
| "bmi_handler (ChangeHeightCm v) s = handleInputChange setHeightCmInput v s"
| "bmi_handler (ChangeHeightFt v) s = handleInputChange setHeightFtInput v s"
| "bmi_handler (ChangeHeightIn v) s = handleInputChange setHeightInInput v s"
| "bmi_handler Toggle s = toggleUnits s"
| "bmi_handler Submit s = calculateBMI s"
| "bmi_handler e s = s"

text \<open>
  Mounting reads the storage, the first render recalculates, and the effect saves the
  hooks.
\<close>

definition bmi_mount :: "storage \<Rightarrow> bmi_state \<times> storage" where
  "bmi_mount st = (let s = bmi_recalculate (loadBMIState st) in (s, saveBMIState s st))"

text \<open>
  One event: the handler runs on the hooks of the last render; the next render
  recalculates when \<open>weightKg\<close> or \<open>heightCm\<close> has changed, and the effect saves when an
  input hook has changed.
\<close>

definition bmi_step :: "event \<Rightarrow> bmi_state \<times> storage \<Rightarrow> bmi_state \<times> storage" where
  "bmi_step e c =
     (case c of (s, st) \<Rightarrow>
        if e = Reload then bmi_mount st
        else if \<not> bmi_rendered e s then c
        else
          (let s1 = bmi_handler e s;
               s2 = (if weightKg s1 = weightKg s \<and> heightCm s1 = heightCm s then s1
                     else bmi_recalculate s1)
           in (s2, if inputs s2 = inputs s then st else saveBMIState s2 st)))"

definition bmi_run :: "event list \<Rightarrow> bmi_state \<times> storage \<Rightarrow> bmi_state \<times> storage" where
  "bmi_run es c = foldl (\<lambda>c e. bmi_step e c) c es"

subsection \<open>The TDEE calculator\<close>

text \<open>The radio buttons offer the two genders, the select the five activity levels.\<close>

fun tdee_rendered :: "event \<Rightarrow> tdee_state \<Rightarrow> bool" where
  "tdee_rendered (ChangeHeightCm v) s = (units s = metric)"
| "tdee_rendered (ChangeHeightFt v) s = (units s = imperial)"
| "tdee_rendered (ChangeHeightIn v) s = (units s = imperial)"
| "tdee_rendered (SelectGender v) s = (v = ''male'' \<or> v = ''female'')"
| "tdee_rendered (SelectActivityLevel v) s = (activityFactors v \<noteq> None)"
| "tdee_rendered e s = True"

fun tdee_handler :: "event \<Rightarrow> tdee_state \<Rightarrow> tdee_state" where
  "tdee_handler (ChangeWeight v) s = handleInputChange setWeightInput v s"
| "tdee_handler (ChangeHeightCm v) s = handleInputChange setHeightCmInput v s"
| "tdee_handler (ChangeHeightFt v) s = handleInputChange setHeightFtInput v s"
| "tdee_handler (ChangeHeightIn v) s = handleInputChange setHeightInInput v s"
| "tdee_handler (ChangeAge v) s = handleInputChange setAge v s"
| "tdee_handler (SelectGender v) s = handleSelectChange setGender v s"
| "tdee_handler (SelectActivityLevel v) s = handleSelectChange setActivityLevel v s"
| "tdee_handler Toggle s = toggleUnits s"
| "tdee_handler Submit s = calculateTDEE s"
| "tdee_handler Reload s = s"

definition tdee_mount :: "storage \<Rightarrow> tdee_state \<times> storage" where
  "tdee_mount st = (let s = tdee_recalculate (loadState st) in (s, saveState s st))"

definition tdee_step :: "event \<Rightarrow> tdee_state \<times> storage \<Rightarrow> tdee_state \<times> storage" where
  "tdee_step e c =
     (case c of (s, st) \<Rightarrow>
        if e = Reload then tdee_mount st
        else if \<not> tdee_rendered e s then c
        else
          (let s1 = tdee_handler e s;
               s2 = (if age s1 = age s \<and> gender s1 = gender s \<and> weightKg s1 = weightKg s
                        \<and> heightCm s1 = heightCm s \<and> activityLevel s1 = activityLevel s
                     then s1 else tdee_recalculate s1)
           in (s2, if age s2 = age s \<and> gender s2 = gender s \<and> inputs s2 = inputs s
                      \<and> activityLevel s2 = activityLevel s
                   then st else saveState s2 st)))"

definition tdee_run :: "event list \<Rightarrow> tdee_state \<times> storage \<Rightarrow> tdee_state \<times> storage" where
  "tdee_run es c = foldl (\<lambda>c e. tdee_step e c) c es"

text \<open>A first visit: nothing is stored yet.\<close>

definition first_visit :: "storage \<Rightarrow> bool" where
  "first_visit st = (bmiCalculatorState_v2 st = None \<and> tdeeCalculatorState st = None)"

definition fresh_storage :: storage where
  "fresh_storage =
     \<lparr>getItem_throws = False, setItem_throws = False, bmiCalculatorState_v2 = None,
      tdeeCalculatorState = None\<rparr>"

section \<open>Example states\<close>

text \<open>The inputs of the examples: 70 kg and 175 cm; 154 lb and 5 ft 9 in; and so on.\<close>

definition bmi_example :: bmi_state where
  "bmi_example = bmi_default\<lparr>weightInput := Num (Fin 70), heightCmInput := Num (Fin 175)\<rparr>"

definition bmi_imperial_example :: bmi_state where
  "bmi_imperial_example =
     bmi_default\<lparr>units := imperial, weightInput := Num (Fin 154), heightFtInput := Num (Fin 5),
                 heightInInput := Num (Fin 9)\<rparr>"



definition bmi_zero_height :: bmi_state where
  "bmi_zero_height = bmi_default\<lparr>weightInput := Num (Fin 70), heightCmInput := Num (Fin 0)\<rparr>"

definition tdee_zero_height :: tdee_state where
  "tdee_zero_height =
     tdee_default\<lparr>age := Num (Fin 30), weightInput := Num (Fin 80), heightCmInput := Num (Fin 0)\<rparr>"

definition tdee_no_age :: tdee_state where
  "tdee_no_age = tdee_default\<lparr>weightInput := Num (Fin 80), heightCmInput := Num (Fin 180)\<rparr>"



definition tdee_imperial_example :: tdee_state where
  "tdee_imperial_example =
     tdee_default\<lparr>units := imperial, weightInput := Num (Fin 154.3), heightFtInput := Num (Fin 5),
                  heightInInput := Num (Fin 9.5), age := Num (Fin 41), gender := ''female'',
                  activityLevel := ''active''\<rparr>"

definition bmi_NaN_weight :: bmi_state where
  "bmi_NaN_weight = bmi_default\<lparr>weightInput := Num NaN, heightCmInput := Num (Fin 175)\<rparr>"

section \<open>Predicates on states\<close>

text \<open>
  The height fields that are not on screen hold nothing that counts: in imperial units
  the cm field is empty; in metric units neither the feet nor the inches field holds a
  positive number.
\<close>

definition height_inv :: "'a form_scheme \<Rightarrow> bool" where
  "height_inv s =
     (if units s = imperial then heightCmInput s = Empty
      else \<not> gt (orZero (heightFtInput s)) (Fin 0) \<and> \<not> gt (orZero (heightInInput s)) (Fin 0))"

text \<open>The same of a component together with the state its storage slot would restore.\<close>

definition bmi_ok :: "bmi_state \<times> storage \<Rightarrow> bool" where
  "bmi_ok c = (height_inv (fst c) \<and> height_inv (loadBMIState (snd c)))"

definition tdee_ok :: "tdee_state \<times> storage \<Rightarrow> bool" where
  "tdee_ok c = (height_inv (fst c) \<and> height_inv (loadState (snd c)))"

section \<open>Properties of the engines\<close>

lemmas const_defs = LBS_TO_KG_def KG_TO_LBS_def IN_TO_CM_def CM_TO_IN_def FT_TO_IN_def





section \<open>Absent and degenerate input\<close>

text \<open>
  Neither engine has a failing branch: every operation is arithmetic on numbers, so
  nothing is raised, and an incomplete input ends in the branch that clears the result.

  C3 fails for the TDEE calculator, which does not treat a zero height as incomplete
  input: age 30, 80 kg
  and 0 cm show 786.
\<close>

theorem C3_zero_height_tdee_counterexample:
  "heightCm (fst (tdee_run [ChangeAge ''30'', ChangeWeight ''80'', ChangeHeightCm ''0'']
                    (tdee_mount fresh_storage))) = Num (Fin 0)
   \<and> tdee (fst (tdee_run [ChangeAge ''30'', ChangeWeight ''80'', ChangeHeightCm ''0'']
                    (tdee_mount fresh_storage))) = Some (Fin 786)
   \<and> showResult (fst (tdee_run [ChangeAge ''30'', ChangeWeight ''80'', ChangeHeightCm ''0'']
                    (tdee_mount fresh_storage)))
   \<and> heightCm tdee_zero_height = Num (Fin 0)
   \<and> tdee (calculateTDEE tdee_zero_height) = Some (Fin 786)
   \<and> showResult (calculateTDEE tdee_zero_height)"
  by code_simp

text \<open>
  C3, as the code has it. In both calculators an absent required input (\<open>weightKg\<close> or
  \<open>heightCm\<close> for BMI; \<open>age\<close>, \<open>weightKg\<close> or \<open>heightCm\<close> for TDEE) gives an absent
  result, on the submit path and on the recalculating render. A height of zero gives an
  absent result in the BMI calculator. In the TDEE calculator, a zero height with age
  and weight present gives a result.
\<close>

theorem C3_absent_result:
  "(weightKg b = Empty \<or> heightCm b = Empty \<or> heightCm b = Num (Fin 0) \<longrightarrow>
      calculateBMI b = bmi_absent b \<and> bmi_recalculate b = bmi_absent b)
   \<and> bmi (bmi_absent b) = None \<and> bmiCategoryKey (bmi_absent b) = None
   \<and> \<not> showResult (bmi_absent b)
   \<and> (age t = Empty \<or> weightKg t = Empty \<or> heightCm t = Empty \<longrightarrow>
        calculateTDEE t = tdee_absent t \<and> tdee_recalculate t = tdee_absent t)
   \<and> tdee (tdee_absent t) = None \<and> \<not> showResult (tdee_absent t)
   \<and> (\<forall>a w. age t = Num a \<and> weightKg t = Num w \<and> heightCm t = Num (Fin 0) \<longrightarrow>
        tdee (calculateTDEE t) \<noteq> None \<and> showResult (calculateTDEE t)
        \<and> tdee_recalculate t = calculateTDEE t)"
proof -
  have bmi_part: "weightKg b = Empty \<or> heightCm b = Empty \<or> heightCm b = Num (Fin 0) \<longrightarrow>
      calculateBMI b = bmi_absent b \<and> bmi_recalculate b = bmi_absent b"
    by (auto simp: calculateBMI_def bmi_recalculate_def split: field.splits)
  have tdee_part: "age t = Empty \<or> weightKg t = Empty \<or> heightCm t = Empty \<longrightarrow>
        calculateTDEE t = tdee_absent t \<and> tdee_recalculate t = tdee_absent t"
    by (auto simp: calculateTDEE_def tdee_recalculate_def split: field.splits)
  have zero: "\<forall>a w. age t = Num a \<and> weightKg t = Num w \<and> heightCm t = Num (Fin 0) \<longrightarrow>
        tdee (calculateTDEE t) \<noteq> None \<and> showResult (calculateTDEE t)
        \<and> tdee_recalculate t = calculateTDEE t"
    by (auto simp: calculateTDEE_def tdee_recalculate_def Let_def)
  from bmi_part tdee_part zero show ?thesis
    by (simp add: bmi_absent_def tdee_absent_def)
qed

text \<open>The theorem at 70 kg with height 0, and at a TDEE form without an age.\<close>

theorem C3_absent_result_witness:
  "heightCm bmi_zero_height = Num (Fin 0)
   \<and> bmi (calculateBMI bmi_zero_height) = None
   \<and> \<not> showResult (calculateBMI bmi_zero_height)
   \<and> bmi (bmi_recalculate bmi_zero_height) = None
   \<and> age tdee_no_age = Empty
   \<and> tdee (calculateTDEE tdee_no_age) = None
   \<and> \<not> showResult (calculateTDEE tdee_no_age)
   \<and> tdee (tdee_recalculate tdee_no_age) = None"
proof -
  have h: "heightCm bmi_zero_height = Num (Fin 0)" and a: "age tdee_no_age = Empty"
    by (simp_all add: heightCm_def bmi_zero_height_def bmi_default_def tdee_no_age_def
        tdee_default_def)
  show ?thesis using C3_absent_result [of bmi_zero_height tdee_no_age] h a
    by (simp add: bmi_absent_def tdee_absent_def)
qed

section \<open>Invalid persisted gender and activity level\<close>



section \<open>Defects of the input boundary\<close>

text \<open>
  C8 fails on the code. A height of 182.8 cm is 71.9685 in; the toggle stores 5 ft and
  \<open>round (11.9685 * 10) / 10 = 12\<close> in, without a carry into the feet. The change
  handler itself has no bound either: the text 15 is stored in the inches field (the
  limit of 11.9 is an attribute of the input element, which form validation reads).
\<close>

theorem C8_inches_reach_twelve:
  "heightFtInput (fst (bmi_run [ChangeHeightCm ''182.8'', Toggle] (bmi_mount fresh_storage)))
     = Num (Fin 5)
   \<and> heightInInput (fst (bmi_run [ChangeHeightCm ''182.8'', Toggle] (bmi_mount fresh_storage)))
     = Num (Fin 12)
   \<and> heightInInput (fst (tdee_run [ChangeHeightCm ''182.8'', Toggle] (tdee_mount fresh_storage)))
     = Num (Fin 12)
   \<and> heightInInput (fst (bmi_run [Toggle, ChangeHeightIn ''15''] (bmi_mount fresh_storage)))
     = Num (Fin 15)
   \<and> \<not> lt (Fin 12) (Fin 12)"
  by code_simp


section \<open>Persistence round trip\<close>

text \<open>A field other than \<open>NaN\<close> is read back as it was written; \<open>NaN\<close> comes back absent.\<close>

lemma field_round_trip: "Num NaN \<noteq> f \<Longrightarrow> orEmptyString (stringify_field f) = f"
  by (cases f rule: stringify_field.cases) simp_all

lemma NaN_field_loads_empty: "orEmptyString (stringify_field (Num NaN)) = Empty"
  by simp

lemma units_round_trip:
  "(if units_string u = ''imperial'' then imperial else metric) = u"
  by (cases u) simp_all

lemma load_save_bmi:
  assumes "\<not> setItem_throws st" and "\<not> getItem_throws st"
  shows "loadBMIState (saveBMIState b st) =
     bmi_default
       \<lparr>units := units b,
        weightInput := orEmptyString (stringify_field (weightInput b)),
        heightCmInput := orEmptyString (stringify_field (heightCmInput b)),
        heightFtInput := orEmptyString (stringify_field (heightFtInput b)),
        heightInInput := orEmptyString (stringify_field (heightInInput b))\<rparr>"
  using assms units_round_trip [of "units b"]
  by (simp add: loadBMIState_def saveBMIState_def)

lemma load_save_tdee:
  assumes "\<not> setItem_throws st" and "\<not> getItem_throws st"
  shows "loadState (saveState t st) =
     tdee_default
       \<lparr>units := units t,
        weightInput := orEmptyString (stringify_field (weightInput t)),
        heightCmInput := orEmptyString (stringify_field (heightCmInput t)),
        heightFtInput := orEmptyString (stringify_field (heightFtInput t)),
        heightInInput := orEmptyString (stringify_field (heightInInput t)),
        age := orEmptyString (stringify_field (age t)),
        gender := gender t, activityLevel := activityLevel t\<rparr>"
  using assms units_round_trip [of "units t"]
  by (simp add: loadState_def saveState_def)

text \<open>
  C9. Saving a state and loading it from the same slot reproduces every field: weight,
  height in cm, feet, inches and units, and for the TDEE calculator also age, gender
  and activity level. The state is one of the data model, its numeric fields absent or
  finite, and the storage accepts the write and the read.
\<close>

theorem C9_persistence_round_trip:
  assumes "\<not> setItem_throws st" and "\<not> getItem_throws st"
    and "Num NaN \<notin> {weightInput b, heightCmInput b, heightFtInput b, heightInInput b}"
    and "Num NaN \<notin> {weightInput t, heightCmInput t, heightFtInput t, heightInInput t, age t}"
  shows "weightInput (loadBMIState (saveBMIState b st)) = weightInput b
   \<and> heightCmInput (loadBMIState (saveBMIState b st)) = heightCmInput b
   \<and> heightFtInput (loadBMIState (saveBMIState b st)) = heightFtInput b
   \<and> heightInInput (loadBMIState (saveBMIState b st)) = heightInInput b
   \<and> units (loadBMIState (saveBMIState b st)) = units b
   \<and> weightInput (loadState (saveState t st)) = weightInput t
   \<and> heightCmInput (loadState (saveState t st)) = heightCmInput t
   \<and> heightFtInput (loadState (saveState t st)) = heightFtInput t
   \<and> heightInInput (loadState (saveState t st)) = heightInInput t
   \<and> units (loadState (saveState t st)) = units t
   \<and> age (loadState (saveState t st)) = age t
   \<and> gender (loadState (saveState t st)) = gender t
   \<and> activityLevel (loadState (saveState t st)) = activityLevel t"
  using assms by (simp add: load_save_bmi load_save_tdee field_round_trip)

text \<open>The theorem at two imperial states and an empty storage.\<close>

theorem C9_persistence_round_trip_witness:
  "\<not> setItem_throws fresh_storage \<and> \<not> getItem_throws fresh_storage
   \<and> inputs (loadBMIState (saveBMIState bmi_imperial_example fresh_storage))
       = (imperial, Num (Fin 154), Empty, Num (Fin 5), Num (Fin 9))
   \<and> inputs (loadState (saveState tdee_imperial_example fresh_storage))
       = (imperial, Num (Fin 154.3), Empty, Num (Fin 5), Num (Fin 9.5))
   \<and> age (loadState (saveState tdee_imperial_example fresh_storage)) = Num (Fin 41)
   \<and> gender (loadState (saveState tdee_imperial_example fresh_storage)) = ''female''
   \<and> activityLevel (loadState (saveState tdee_imperial_example fresh_storage)) = ''active''"
proof -
  have s: "\<not> setItem_throws fresh_storage" and g: "\<not> getItem_throws fresh_storage"
    by (simp_all add: fresh_storage_def)
  have b: "Num NaN \<notin> {weightInput bmi_imperial_example, heightCmInput bmi_imperial_example,
      heightFtInput bmi_imperial_example, heightInInput bmi_imperial_example}"
    by (simp add: bmi_imperial_example_def bmi_default_def)
  have t: "Num NaN \<notin> {weightInput tdee_imperial_example, heightCmInput tdee_imperial_example,
      heightFtInput tdee_imperial_example, heightInInput tdee_imperial_example,
      age tdee_imperial_example}"
    by (simp add: tdee_imperial_example_def tdee_default_def)
  show ?thesis
    using C9_persistence_round_trip [OF s g b t] s g
    by (simp add: inputs_def bmi_imperial_example_def tdee_imperial_example_def
        bmi_default_def tdee_default_def)
qed

text \<open>
  A \<open>NaN\<close> field, which the data model excludes, is written as \<^verbatim>\<open>null\<close> and read back
  as the empty string.
\<close>

lemma NaN_weight_not_restored:
  "weightInput (loadBMIState (saveBMIState bmi_NaN_weight fresh_storage)) = Empty"
  by code_simp

section \<open>The two height representations\<close>

subsection \<open>What the toggle does to the height fields\<close>

lemma height_inv_cong:
  "units s' = units s \<Longrightarrow> heightCmInput s' = heightCmInput s \<Longrightarrow>
   heightFtInput s' = heightFtInput s \<Longrightarrow> heightInInput s' = heightInInput s \<Longrightarrow>
   height_inv s' = height_inv s"
  by (simp add: height_inv_def)

lemma convertWeight_fields [simp]:
  "units (convertWeight k s t) = units t"
  "heightCmInput (convertWeight k s t) = heightCmInput t"
  "heightFtInput (convertWeight k s t) = heightFtInput t"
  "heightInInput (convertWeight k s t) = heightInInput t"
  by (simp_all add: convertWeight_def split: field.splits)

lemma toggleUnits_units: "units (toggleUnits s) = (if units s = metric then imperial else metric)"
  by (simp add: toggleUnits_def Let_def split: field.splits)

lemma toggle_to_imperial_cm:
  "units s = metric \<Longrightarrow> heightCmInput (toggleUnits s) = Empty"
  by (simp add: toggleUnits_def Let_def split: field.splits)

lemma toggle_to_metric_positive:
  "units s = imperial \<Longrightarrow>
   gt (orZero (heightFtInput s)) (Fin 0) \<or> gt (orZero (heightInInput s)) (Fin 0) \<Longrightarrow>
   heightFtInput (toggleUnits s) = Empty \<and> heightInInput (toggleUnits s) = Empty
   \<and> heightCmInput (toggleUnits s)
       = Num (Math_round ((orZero (heightFtInput s) * FT_TO_IN + orZero (heightInInput s))
                            * IN_TO_CM))"
  by (simp add: toggleUnits_def Let_def)

lemma toggle_to_metric_none:
  "units s = imperial \<Longrightarrow>
   \<not> gt (orZero (heightFtInput s)) (Fin 0) \<Longrightarrow> \<not> gt (orZero (heightInInput s)) (Fin 0) \<Longrightarrow>
   heightFtInput (toggleUnits s) = heightFtInput s
   \<and> heightInInput (toggleUnits s) = heightInInput s
   \<and> heightCmInput (toggleUnits s) = heightCmInput s"
  by (simp add: toggleUnits_def Let_def)

lemma height_inv_toggleUnits: "height_inv (toggleUnits s)"
proof (cases "units s")
  case metric
  then show ?thesis
    by (simp add: height_inv_def toggleUnits_units toggle_to_imperial_cm)
next
  case imperial
  show ?thesis
  proof (cases "gt (orZero (heightFtInput s)) (Fin 0) \<or> gt (orZero (heightInInput s)) (Fin 0)")
    case True
    with imperial show ?thesis
      using toggle_to_metric_positive [of s]
      by (simp add: height_inv_def toggleUnits_units)
  next
    case False
    with imperial show ?thesis
      using toggle_to_metric_none [of s]
      by (simp add: height_inv_def toggleUnits_units)
  qed
qed

subsection \<open>The invariant along every run of events\<close>

lemma height_inv_change_weight:
  "height_inv s \<Longrightarrow> height_inv (handleInputChange setWeightInput v s)"
  by (simp add: height_inv_def handleInputChange_def setWeightInput_def Let_def)

lemma height_inv_change_cm:
  "height_inv s \<Longrightarrow> units s = metric \<Longrightarrow> height_inv (handleInputChange setHeightCmInput v s)"
  by (simp add: height_inv_def handleInputChange_def setHeightCmInput_def Let_def)

lemma height_inv_change_ft:
  "height_inv s \<Longrightarrow> units s = imperial \<Longrightarrow> height_inv (handleInputChange setHeightFtInput v s)"
  by (simp add: height_inv_def handleInputChange_def setHeightFtInput_def Let_def)

lemma height_inv_change_in:
  "height_inv s \<Longrightarrow> units s = imperial \<Longrightarrow> height_inv (handleInputChange setHeightInInput v s)"
  by (simp add: height_inv_def handleInputChange_def setHeightInInput_def Let_def)

lemma height_inv_calculateBMI: "height_inv (calculateBMI s) = height_inv s"
  by (rule height_inv_cong)
    (simp_all add: calculateBMI_def bmi_absent_def Let_def split: field.splits)

lemma height_inv_bmi_recalculate: "height_inv (bmi_recalculate s) = height_inv s"
  by (simp add: bmi_recalculate_def height_inv_calculateBMI)
    (simp add: height_inv_def bmi_absent_def)

lemma height_inv_calculateTDEE: "height_inv (calculateTDEE s) = height_inv s"
  by (rule height_inv_cong)
    (simp_all add: calculateTDEE_def tdee_absent_def Let_def split: field.splits)

lemma height_inv_tdee_recalculate: "height_inv (tdee_recalculate s) = height_inv s"
  by (simp add: tdee_recalculate_def height_inv_calculateTDEE)
    (simp add: height_inv_def tdee_absent_def)

lemma orZero_restored:
  "\<not> gt (orZero f) (Fin 0) \<Longrightarrow> \<not> gt (orZero (orEmptyString (stringify_field f))) (Fin 0)"
  by (cases f rule: stringify_field.cases) simp_all

lemma restored_empty: "orEmptyString (stringify_field Empty) = Empty"
  by simp

lemma height_inv_bmi_default: "height_inv bmi_default"
  by (simp add: height_inv_def bmi_default_def)

lemma height_inv_tdee_default: "height_inv tdee_default"
  by (simp add: height_inv_def tdee_default_def)

lemma height_inv_saveBMIState:
  assumes "height_inv s" and "height_inv (loadBMIState st)"
  shows "height_inv (loadBMIState (saveBMIState s st))"
proof (cases "setItem_throws st")
  case True
  then show ?thesis using assms by (simp add: saveBMIState_def)
next
  case False
  show ?thesis
  proof (cases "getItem_throws st")
    case True
    then show ?thesis
      by (simp add: loadBMIState_def saveBMIState_def height_inv_bmi_default)
  next
    case g: False
    have "units_string (units s) = ''imperial'' \<longleftrightarrow> units s = imperial"
      by (cases "units s") simp_all
    then show ?thesis
      using assms(1) False g
      by (auto simp: loadBMIState_def saveBMIState_def height_inv_def bmi_default_def
          orZero_restored)
  qed
qed

lemma height_inv_saveState:
  assumes "height_inv s" and "height_inv (loadState st)"
  shows "height_inv (loadState (saveState s st))"
proof (cases "setItem_throws st")
  case True
  then show ?thesis using assms by (simp add: saveState_def)
next
  case False
  show ?thesis
  proof (cases "getItem_throws st")
    case True
    then show ?thesis
      by (simp add: loadState_def saveState_def height_inv_tdee_default)
  next
    case g: False
    have "units_string (units s) = ''imperial'' \<longleftrightarrow> units s = imperial"
      by (cases "units s") simp_all
    then show ?thesis
      using assms(1) False g
      by (auto simp: loadState_def saveState_def height_inv_def tdee_default_def
          orZero_restored)
  qed
qed

lemma bmi_ok_mount: "height_inv (loadBMIState st) \<Longrightarrow> bmi_ok (bmi_mount st)"
  by (simp add: bmi_ok_def bmi_mount_def Let_def height_inv_bmi_recalculate
      height_inv_saveBMIState)

lemma tdee_ok_mount: "height_inv (loadState st) \<Longrightarrow> tdee_ok (tdee_mount st)"
  by (simp add: tdee_ok_def tdee_mount_def Let_def height_inv_tdee_recalculate
      height_inv_saveState)

lemma height_inv_bmi_handler:
  "height_inv s \<Longrightarrow> bmi_rendered e s \<Longrightarrow> height_inv (bmi_handler e s)"
  by (cases e)
    (simp_all add: height_inv_change_weight height_inv_change_cm height_inv_change_ft
      height_inv_change_in height_inv_toggleUnits height_inv_calculateBMI)

lemma height_inv_tdee_handler:
  "height_inv s \<Longrightarrow> tdee_rendered e s \<Longrightarrow> height_inv (tdee_handler e s)"
proof (cases e)
  case (ChangeAge v)
  assume "height_inv s"
  then show ?thesis using ChangeAge
    by (simp add: height_inv_def handleInputChange_def setAge_def Let_def)
next
  case (SelectGender v)
  assume "height_inv s"
  then show ?thesis using SelectGender
    by (simp add: height_inv_def handleSelectChange_def setGender_def)
next
  case (SelectActivityLevel v)
  assume "height_inv s"
  then show ?thesis using SelectActivityLevel
    by (simp add: height_inv_def handleSelectChange_def setActivityLevel_def)
qed (simp_all add: height_inv_change_weight height_inv_change_cm height_inv_change_ft
      height_inv_change_in height_inv_toggleUnits height_inv_calculateTDEE)

lemma bmi_ok_step: "bmi_ok c \<Longrightarrow> bmi_ok (bmi_step e c)"
proof -
  assume ok: "bmi_ok c"
  obtain s st where c: "c = (s, st)" by (cases c)
  show ?thesis
  proof (cases "e = Reload")
    case True
    then show ?thesis using ok c bmi_ok_mount [of st] by (simp add: bmi_step_def bmi_ok_def)
  next
    case False
    show ?thesis
    proof (cases "bmi_rendered e s")
      case r: False
      then show ?thesis using ok c False by (simp add: bmi_step_def)
    next
      case True
      then have "height_inv (bmi_handler e s)"
        using ok c by (simp add: bmi_ok_def height_inv_bmi_handler)
      then show ?thesis
        using ok c False True
        by (simp add: bmi_step_def bmi_ok_def Let_def height_inv_bmi_recalculate
            height_inv_saveBMIState)
    qed
  qed
qed

lemma tdee_ok_step: "tdee_ok c \<Longrightarrow> tdee_ok (tdee_step e c)"
proof -
  assume ok: "tdee_ok c"
  obtain s st where c: "c = (s, st)" by (cases c)
  show ?thesis
  proof (cases "e = Reload")
    case True
    then show ?thesis using ok c tdee_ok_mount [of st] by (simp add: tdee_step_def tdee_ok_def)
  next
    case False
    show ?thesis
    proof (cases "tdee_rendered e s")
      case r: False
      then show ?thesis using ok c False by (simp add: tdee_step_def)
    next
      case True
      then have "height_inv (tdee_handler e s)"
        using ok c by (simp add: tdee_ok_def height_inv_tdee_handler)
      then show ?thesis
        using ok c False True
        by (simp add: tdee_step_def tdee_ok_def Let_def height_inv_tdee_recalculate
            height_inv_saveState)
    qed
  qed
qed

lemma bmi_ok_run: "bmi_ok c \<Longrightarrow> bmi_ok (bmi_run es c)"
  unfolding bmi_run_def by (induction es arbitrary: c) (simp_all add: bmi_ok_step)

lemma tdee_ok_run: "tdee_ok c \<Longrightarrow> tdee_ok (tdee_run es c)"
  unfolding tdee_run_def by (induction es arbitrary: c) (simp_all add: tdee_ok_step)

lemma bmi_reachable_height_inv:
  "first_visit st \<Longrightarrow> height_inv (fst (bmi_run es (bmi_mount st)))"
proof -
  assume "first_visit st"
  then have "height_inv (loadBMIState st)"
    by (simp add: first_visit_def loadBMIState_def height_inv_bmi_default)
  then have "bmi_ok (bmi_run es (bmi_mount st))"
    by (intro bmi_ok_run bmi_ok_mount)
  then show ?thesis by (simp add: bmi_ok_def)
qed

lemma tdee_reachable_height_inv:
  "first_visit st \<Longrightarrow> height_inv (fst (tdee_run es (tdee_mount st)))"
proof -
  assume "first_visit st"
  then have "height_inv (loadState st)"
    by (simp add: first_visit_def loadState_def height_inv_tdee_default)
  then have "tdee_ok (tdee_run es (tdee_mount st))"
    by (intro tdee_ok_run tdee_ok_mount)
  then show ?thesis by (simp add: tdee_ok_def)
qed

subsection \<open>The converted values\<close>

lemma toggle_metric_weight:
  "units s = metric \<Longrightarrow> weightInput s = Num (Fin w) \<Longrightarrow>
   weightInput (toggleUnits s) = Num (Fin (real_of_int (round (w * 2.20462 * 10)) / 10))"
  by (simp add: toggleUnits_def convertWeight_def const_defs Let_def round_def
      split: field.splits)

lemma toggle_imperial_weight:
  "units s = imperial \<Longrightarrow> weightInput s = Num (Fin w) \<Longrightarrow>
   weightInput (toggleUnits s) = Num (Fin (real_of_int (round (w * 0.453592 * 10)) / 10))"
  by (simp add: toggleUnits_def convertWeight_def const_defs Let_def round_def
      split: field.splits)


lemma rem_nonneg: "0 \<le> x \<Longrightarrow> rem (Fin x) (Fin 12) = Fin (x - 12 * real_of_int \<lfloor>x / 12\<rfloor>)"
  by (simp add: trunc_def)

lemma toggle_metric_height:
  assumes "units s = metric" and "heightCmInput s = Num (Fin c)" and "0 \<le> c"
  shows "heightFtInput (toggleUnits s) = Num (Fin (real_of_int \<lfloor>c * 0.393701 / 12\<rfloor>))"
    and "heightInInput (toggleUnits s)
      = Num (Fin (real_of_int (round ((c * 0.393701 - 12 * real_of_int \<lfloor>c * 0.393701 / 12\<rfloor>)
                                        * 10)) / 10))"
    and "heightCmInput (toggleUnits s) = Empty"
proof -
  have t: "0 \<le> c * 0.393701" using assms(3) by simp
  show "heightFtInput (toggleUnits s) = Num (Fin (real_of_int \<lfloor>c * 0.393701 / 12\<rfloor>))"
    using assms by (simp add: toggleUnits_def const_defs Let_def)
  show "heightInInput (toggleUnits s)
      = Num (Fin (real_of_int (round ((c * 0.393701 - 12 * real_of_int \<lfloor>c * 0.393701 / 12\<rfloor>)
                                        * 10)) / 10))"
    using assms(1,2) rem_nonneg [OF t] by (simp add: toggleUnits_def const_defs Let_def round_def)
  show "heightCmInput (toggleUnits s) = Empty"
    using assms by (simp add: toggleUnits_def Let_def)
qed

lemma toggle_imperial_height:
  assumes "units s = imperial"
    and "orZero (heightFtInput s) = Fin f" and "orZero (heightInInput s) = Fin i"
  shows "0 < f \<or> 0 < i \<longrightarrow>
      heightCmInput (toggleUnits s) = Num (Fin (real_of_int (round ((f * 12 + i) * 2.54))))"
    and "f \<le> 0 \<and> i \<le> 0 \<longrightarrow> heightCmInput (toggleUnits s) = heightCmInput s"
  using assms by (auto simp: toggleUnits_def const_defs Let_def round_def)



text \<open>
  C5 fails on the code: the toggle to metric clears the feet and inches only inside the
  guard \<^verbatim>\<open>ft > 0 || inches > 0\<close>. After entering 0 ft and toggling, the feet field still
  holds 0 in metric units, and it holds it next to a height of 170 cm entered then.
\<close>

theorem C5_stale_feet_counterexample:
  "units (fst (bmi_run [Toggle, ChangeHeightFt ''0'', Toggle] (bmi_mount fresh_storage)))
     = metric
   \<and> heightFtInput (fst (bmi_run [Toggle, ChangeHeightFt ''0'', Toggle]
        (bmi_mount fresh_storage))) = Num (Fin 0)
   \<and> heightCmInput (fst (bmi_run [Toggle, ChangeHeightFt ''0'', Toggle, ChangeHeightCm ''170'']
        (bmi_mount fresh_storage))) = Num (Fin 170)
   \<and> heightFtInput (fst (bmi_run [Toggle, ChangeHeightFt ''0'', Toggle, ChangeHeightCm ''170'']
        (bmi_mount fresh_storage))) = Num (Fin 0)"
  by code_simp

text \<open>
  C5, as the code has it. In every state reached from a first visit by edits, toggles,
  submits and reloads: in imperial units the cm field is absent; in metric units neither
  the feet nor the inches field holds a positive number. A toggle to imperial leaves the
  cm field absent; a toggle to metric clears feet and inches when one of them is
  positive and leaves all three height fields as they are otherwise. The canonical
  height reads the representation of the current units only.
\<close>

theorem C5_height_representations:
  fixes s :: "'a form_scheme" and es es' :: "event list"
  assumes "first_visit st"
  defines "b \<equiv> fst (bmi_run es (bmi_mount st))"
      and "t \<equiv> fst (tdee_run es' (tdee_mount st))"
  shows "(units b = imperial \<longrightarrow> heightCmInput b = Empty)
    \<and> (units b = metric \<longrightarrow>
         \<not> gt (orZero (heightFtInput b)) (Fin 0) \<and> \<not> gt (orZero (heightInInput b)) (Fin 0))
    \<and> (units t = imperial \<longrightarrow> heightCmInput t = Empty)
    \<and> (units t = metric \<longrightarrow>
         \<not> gt (orZero (heightFtInput t)) (Fin 0) \<and> \<not> gt (orZero (heightInInput t)) (Fin 0))
    \<and> (units s = metric \<longrightarrow> heightCmInput (toggleUnits s) = Empty)
    \<and> (units s = imperial
          \<and> (gt (orZero (heightFtInput s)) (Fin 0) \<or> gt (orZero (heightInInput s)) (Fin 0)) \<longrightarrow>
        heightFtInput (toggleUnits s) = Empty \<and> heightInInput (toggleUnits s) = Empty)
    \<and> (units s = imperial \<and> \<not> gt (orZero (heightFtInput s)) (Fin 0)
          \<and> \<not> gt (orZero (heightInInput s)) (Fin 0) \<longrightarrow>
        heightFtInput (toggleUnits s) = heightFtInput s
        \<and> heightInInput (toggleUnits s) = heightInInput s
        \<and> heightCmInput (toggleUnits s) = heightCmInput s)
    \<and> (units s = metric \<longrightarrow>
         heightCm s = heightCmInput s
         \<and> heightCm (s\<lparr>heightFtInput := x, heightInInput := y\<rparr>) = heightCm s)
    \<and> (units s = imperial \<longrightarrow> heightCm (s\<lparr>heightCmInput := z\<rparr>) = heightCm s)"
proof -
  have "height_inv b" and "height_inv t"
    using assms(1) by (simp_all add: b_def t_def bmi_reachable_height_inv
        tdee_reachable_height_inv)
  then have inv: "(units b = imperial \<longrightarrow> heightCmInput b = Empty)
    \<and> (units b = metric \<longrightarrow>
         \<not> gt (orZero (heightFtInput b)) (Fin 0) \<and> \<not> gt (orZero (heightInInput b)) (Fin 0))
    \<and> (units t = imperial \<longrightarrow> heightCmInput t = Empty)
    \<and> (units t = metric \<longrightarrow>
         \<not> gt (orZero (heightFtInput t)) (Fin 0) \<and> \<not> gt (orZero (heightInInput t)) (Fin 0))"
    by (simp add: height_inv_def)
  have canonical: "(units s = metric \<longrightarrow>
         heightCm s = heightCmInput s
         \<and> heightCm (s\<lparr>heightFtInput := x, heightInInput := y\<rparr>) = heightCm s)
    \<and> (units s = imperial \<longrightarrow> heightCm (s\<lparr>heightCmInput := z\<rparr>) = heightCm s)"
    by (simp add: heightCm_def)
  from inv canonical toggle_to_imperial_cm [of s] toggle_to_metric_positive [of s]
    toggle_to_metric_none [of s]
  show ?thesis by blast
qed

text \<open>The theorem along two runs from an empty storage, and at 5 ft 9 in.\<close>

theorem C5_height_representations_witness:
  "first_visit fresh_storage
   \<and> units (fst (bmi_run [ChangeHeightCm ''175'', Toggle] (bmi_mount fresh_storage))) = imperial
   \<and> heightCmInput (fst (bmi_run [ChangeHeightCm ''175'', Toggle] (bmi_mount fresh_storage)))
       = Empty
   \<and> units (fst (tdee_run [Toggle, ChangeHeightFt ''5'', Toggle] (tdee_mount fresh_storage)))
       = metric
   \<and> \<not> gt (orZero (heightFtInput
          (fst (tdee_run [Toggle, ChangeHeightFt ''5'', Toggle] (tdee_mount fresh_storage)))))
        (Fin 0)
   \<and> units bmi_imperial_example = imperial
   \<and> gt (orZero (heightFtInput bmi_imperial_example)) (Fin 0)
   \<and> heightFtInput (toggleUnits bmi_imperial_example) = Empty
   \<and> heightInInput (toggleUnits bmi_imperial_example) = Empty"
proof -
  have v: "first_visit fresh_storage"
    by (simp add: first_visit_def fresh_storage_def)
  have u: "units (fst (bmi_run [ChangeHeightCm ''175'', Toggle] (bmi_mount fresh_storage)))
      = imperial"
    "units (fst (tdee_run [Toggle, ChangeHeightFt ''5'', Toggle] (tdee_mount fresh_storage)))
      = metric"
    by code_simp+
  have i: "units bmi_imperial_example = imperial"
    "gt (orZero (heightFtInput bmi_imperial_example)) (Fin 0)"
    by (simp_all add: bmi_imperial_example_def bmi_default_def)
  show ?thesis
    using C5_height_representations [OF v, of "[ChangeHeightCm ''175'', Toggle]"
        "[Toggle, ChangeHeightFt ''5'', Toggle]" bmi_imperial_example]
      v u i
    by simp
qed

section \<open>Toggling twice\<close>

text \<open>
  The two roundings of a weight lose at most \<open>0.05 * 0.453592 + 0.05\<close>, and the product
  of the two factors is \<open>0.99999799504\<close>; the roundings of a height lose at most
  \<open>0.05 * 2.54 + 0.5\<close>, and \<open>0.393701 * 2.54 = 1.00000054\<close>.
\<close>

lemma weight_round_trip_bound:
  fixes w :: real
  assumes "0 < w" and "w \<le> 13600"
  shows "\<bar>real_of_int (round (real_of_int (round (w * 2.20462 * 10)) / 10 * 0.453592 * 10)) / 10
           - w\<bar> < 0.1"
proof -
  define r1 where "r1 = real_of_int (round (w * 2.20462 * 10))"
  define r2 where "r2 = real_of_int (round (r1 / 10 * 0.453592 * 10))"
  have 1: "r1 \<le> w * 2.20462 * 10 + 1 / 2" "w * 2.20462 * 10 - 1 / 2 \<le> r1"
    unfolding r1_def by (rule of_int_round_le, rule of_int_round_ge)
  have 2: "r2 \<le> r1 / 10 * 0.453592 * 10 + 1 / 2" "r1 / 10 * 0.453592 * 10 - 1 / 2 \<le> r2"
    unfolding r2_def by (rule of_int_round_le, rule of_int_round_ge)
  have "r2 / 10 - w < 0.1" and "- 0.1 < r2 / 10 - w"
    using 1 2 assms by simp_all
  then have "\<bar>r2 / 10 - w\<bar> < 0.1"
    by (rule_tac abs_less_iff [THEN iffD2]) simp
  then show ?thesis by (simp only: r1_def r2_def)
qed

lemma height_round_trip_bound:
  fixes c :: real
  assumes "0.13 \<le> c" and "c \<le> 690000"
  defines "f \<equiv> real_of_int \<lfloor>c * 0.393701 / 12\<rfloor>"
  defines "i \<equiv> real_of_int (round ((c * 0.393701 - 12 * f) * 10)) / 10"
  shows "0 < f \<or> 0 < i" and "\<bar>real_of_int (round ((f * 12 + i) * 2.54)) - c\<bar> < 1"
proof -
  have f0: "0 \<le> f"
    using assms(1) by (simp add: f_def)
  have f1: "f \<le> c * 0.393701 / 12"
    unfolding f_def by (rule of_int_floor_le)
  have i1: "i * 10 \<le> (c * 0.393701 - 12 * f) * 10 + 1 / 2"
    "(c * 0.393701 - 12 * f) * 10 - 1 / 2 \<le> i * 10"
    using of_int_round_le [of "(c * 0.393701 - 12 * f) * 10"]
      of_int_round_ge [of "(c * 0.393701 - 12 * f) * 10"]
    by (simp_all add: i_def)
  have "0 \<le> (c * 0.393701 - 12 * f) * 10 + 1 / 2"
    using f1 by simp
  then have "0 \<le> round ((c * 0.393701 - 12 * f) * 10)"
    by (simp add: round_def)
  then have i0: "0 \<le> i" by (simp add: i_def)
  have pos: "0 < f * 12 + i"
    using i1 assms(1) by simp
  show "0 < f \<or> 0 < i"
    using pos f0 i0 by argo
  define r where "r = real_of_int (round ((f * 12 + i) * 2.54))"
  have 3: "r \<le> (f * 12 + i) * 2.54 + 1 / 2" "(f * 12 + i) * 2.54 - 1 / 2 \<le> r"
    unfolding r_def by (rule of_int_round_le, rule of_int_round_ge)
  have "r - c < 1"
    using 3 i1 assms(1,2) by (simp; argo)
  moreover have "- 1 < r - c"
    using 3 i1 assms(1,2) by (simp; argo)
  ultimately have "\<bar>r - c\<bar> < 1"
    by (rule_tac abs_less_iff [THEN iffD2]) simp
  then show "\<bar>real_of_int (round ((f * 12 + i) * 2.54)) - c\<bar> < 1"
    by (simp only: r_def)
qed

text \<open>
  C7 fails on the code for weights and heights outside a range: 100000 kg comes back as
  99999.8 kg, and a height of 0.1 cm becomes 0 ft 0 in, which the second toggle does not
  convert, so that the height comes back absent.
\<close>

theorem C7_round_trip_counterexample:
  "weightInput (fst (bmi_run [ChangeWeight ''100000'', ChangeHeightCm ''0.1'']
      (bmi_mount fresh_storage))) = Num (Fin 100000)
   \<and> heightCmInput (fst (bmi_run [ChangeWeight ''100000'', ChangeHeightCm ''0.1'']
      (bmi_mount fresh_storage))) = Num (Fin 0.1)
   \<and> weightKg (fst (bmi_run [ChangeWeight ''100000'', ChangeHeightCm ''0.1'', Toggle, Toggle]
      (bmi_mount fresh_storage))) = Num (Fin 99999.8)
   \<and> heightCm (fst (bmi_run [ChangeWeight ''100000'', ChangeHeightCm ''0.1'', Toggle, Toggle]
      (bmi_mount fresh_storage))) = Empty
   \<and> units (fst (bmi_run [ChangeWeight ''100000'', ChangeHeightCm ''0.1'', Toggle, Toggle]
      (bmi_mount fresh_storage))) = metric"
  by code_simp

text \<open>
  C7, as the code has it. From metric units, with a weight above 0 and up to 13600 kg
  and a height from 0.13 cm up to 690000 cm, toggling twice gives metric units again,
  a weight within 0.1 of the original and a height within 1 cm of the original, in the
  fields and in the canonical values.
\<close>

theorem C7_round_trip:
  fixes s :: "'a form_scheme"
  assumes "units s = metric"
    and "weightInput s = Num (Fin w)" and "0 < w" and "w \<le> 13600"
    and "heightCmInput s = Num (Fin c)" and "0.13 \<le> c" and "c \<le> 690000"
  shows "\<exists>w' c'. units (toggleUnits (toggleUnits s)) = metric
    \<and> weightInput (toggleUnits (toggleUnits s)) = Num (Fin w')
    \<and> weightKg (toggleUnits (toggleUnits s)) = Num (Fin w')
    \<and> \<bar>w' - w\<bar> < 0.1
    \<and> heightCmInput (toggleUnits (toggleUnits s)) = Num (Fin c')
    \<and> heightCm (toggleUnits (toggleUnits s)) = Num (Fin c')
    \<and> \<bar>c' - c\<bar> < 1"
proof -
  define s1 where "s1 = toggleUnits s"
  define w1 where "w1 = real_of_int (round (w * 2.20462 * 10)) / 10"
  define f where "f = real_of_int \<lfloor>c * 0.393701 / 12\<rfloor>"
  define i where "i = real_of_int (round ((c * 0.393701 - 12 * f) * 10)) / 10"
  define w' where "w' = real_of_int (round (w1 * 0.453592 * 10)) / 10"
  define c' where "c' = real_of_int (round ((f * 12 + i) * 2.54))"
  have c0: "0 \<le> c" using assms(6) by simp
  have u1: "units s1 = imperial"
    using assms(1) by (simp add: s1_def toggleUnits_units)
  have weight1: "weightInput s1 = Num (Fin w1)"
    unfolding s1_def w1_def using assms(1,2) by (rule toggle_metric_weight)
  have ft1: "heightFtInput s1 = Num (Fin f)" and in1: "heightInInput s1 = Num (Fin i)"
    using toggle_metric_height [OF assms(1) assms(5) c0] by (simp_all add: s1_def f_def i_def)
  have positive: "0 < f \<or> 0 < i" and close: "\<bar>c' - c\<bar> < 1"
    using height_round_trip_bound [OF assms(6,7)] by (simp_all add: f_def i_def c'_def)
  have u2: "units (toggleUnits s1) = metric"
    using u1 by (simp add: toggleUnits_units)
  have weight2: "weightInput (toggleUnits s1) = Num (Fin w')"
    unfolding w'_def using u1 weight1 by (rule toggle_imperial_weight)
  have height2: "heightCmInput (toggleUnits s1) = Num (Fin c')"
    using toggle_imperial_height(1) [OF u1, of f i] ft1 in1 positive by (simp add: c'_def)
  have "\<bar>w' - w\<bar> < 0.1"
    using weight_round_trip_bound [OF assms(3,4)] by (simp add: w'_def w1_def)
  moreover have "weightKg (toggleUnits s1) = Num (Fin w')"
    using u2 weight2 by (simp add: weightKg_def)
  moreover have "heightCm (toggleUnits s1) = Num (Fin c')"
    using u2 height2 by (simp add: heightCm_def)
  ultimately show ?thesis
    using u2 weight2 height2 close unfolding s1_def by blast
qed

text \<open>The theorem at 70 kg and 175 cm, which come back as 70 kg and 175 cm.\<close>

theorem C7_round_trip_witness:
  "units bmi_example = metric
   \<and> weightInput bmi_example = Num (Fin 70) \<and> heightCmInput bmi_example = Num (Fin 175)
   \<and> weightInput (toggleUnits bmi_example) = Num (Fin 154.3)
   \<and> weightKg (toggleUnits (toggleUnits bmi_example)) = Num (Fin 70)
   \<and> heightCm (toggleUnits (toggleUnits bmi_example)) = Num (Fin 175)
   \<and> (\<exists>w' c'. weightKg (toggleUnits (toggleUnits bmi_example)) = Num (Fin w')
         \<and> \<bar>w' - 70\<bar> < 0.1
         \<and> heightCm (toggleUnits (toggleUnits bmi_example)) = Num (Fin c')
         \<and> \<bar>c' - 175\<bar> < 1)"
proof -
  have m: "units bmi_example = metric" "weightInput bmi_example = Num (Fin 70)"
    "heightCmInput bmi_example = Num (Fin 175)"
    by (simp_all add: bmi_example_def bmi_default_def)
  have p: "(0::real) < 70" "(70::real) \<le> 13600" "(0.13::real) \<le> 175" "(175::real) \<le> 690000"
    by simp_all
  have r: "weightInput (toggleUnits bmi_example) = Num (Fin 154.3)"
    "weightKg (toggleUnits (toggleUnits bmi_example)) = Num (Fin 70)"
    "heightCm (toggleUnits (toggleUnits bmi_example)) = Num (Fin 175)"
    by code_simp+
  have "\<exists>w' c'. weightKg (toggleUnits (toggleUnits bmi_example)) = Num (Fin w')
         \<and> \<bar>w' - 70\<bar> < 0.1
         \<and> heightCm (toggleUnits (toggleUnits bmi_example)) = Num (Fin c')
         \<and> \<bar>c' - 175\<bar> < 1"
    using C7_round_trip [OF m(1) m(2) p(1) p(2) m(3) p(3) p(4)] by blast
  with m r show ?thesis by simp
qed

section \<open>What the change handler accepts\<close>

text \<open>
  The test of \<open>handleInputChange\<close> decides the language of the regular expression: a run
  of digits, at most one dot, a run of digits.
\<close>

lemma dot_not_digit: "\<not> digit CHR ''.''"
  by (simp add: digit_def)

lemma numeric_pattern_language: "numeric_pattern v = in_pattern_language v"
proof
  assume p: "numeric_pattern v"
  have split: "v = takeWhile digit v @ dropWhile digit v" by simp
  have digits: "list_all digit (takeWhile digit v)"
    by (simp add: list_all_iff) (meson set_takeWhileD)
  show "in_pattern_language v"
  proof (cases "dropWhile digit v")
    case Nil
    with split have "v = takeWhile digit v @ []" by simp
    moreover have "list_all digit []" by simp
    ultimately show ?thesis
      using digits unfolding in_pattern_language_def by blast
  next
    case (Cons c r)
    with p have c: "c = CHR ''.''" and r: "list_all digit r"
      by (simp_all add: numeric_pattern_def)
    from split Cons c have "v = takeWhile digit v @ ''.'' @ r" by simp
    with digits r show ?thesis
      unfolding in_pattern_language_def by blast
  qed
next
  assume "in_pattern_language v"
  then obtain a b where a: "list_all digit a" and b: "list_all digit b"
    and v: "v = a @ b \<or> v = a @ ''.'' @ b"
    unfolding in_pattern_language_def by blast
  from v show "numeric_pattern v"
  proof
    assume "v = a @ b"
    then have "dropWhile digit v = []"
      using a b by (simp add: list_all_iff)
    then show ?thesis by (simp add: numeric_pattern_def del: dropWhile_eq_Nil_conv)
  next
    assume "v = a @ ''.'' @ b"
    then have "dropWhile digit v = CHR ''.'' # b"
      using a by (simp add: list_all_iff dropWhile_append2 dot_not_digit)
    then show ?thesis using b by (simp add: numeric_pattern_def)
  qed
qed

text \<open>
  An accepted text other than the lone dot is converted to a finite number that is not
  negative.
\<close>

lemma digit_value_nonneg: "digit c \<Longrightarrow> 0 \<le> digit_value c"
  by (auto simp: digit_def digit_value_def)

lemma foldl_decimal_nonneg:
  "list_all digit ds \<Longrightarrow> 0 \<le> n \<Longrightarrow> 0 \<le> foldl (\<lambda>n c. 10 * n + digit_value c) n ds"
proof (induction ds arbitrary: n)
  case Nil
  then show ?case by simp
next
  case (Cons d ds)
  then have "0 \<le> 10 * n + digit_value d"
    using digit_value_nonneg [of d] by simp
  with Cons show ?case by simp
qed

lemma decimal_nonneg: "list_all digit ds \<Longrightarrow> 0 \<le> decimal ds"
  by (simp add: decimal_def foldl_decimal_nonneg)

lemma Number_of_accepted:
  assumes "numeric_pattern v"
  shows "(v = ''.'' \<longrightarrow> Number v = NaN) \<and> (v \<noteq> ''.'' \<longrightarrow> (\<exists>x\<ge>0. Number v = Fin x))"
proof -
  define ip where "ip = takeWhile digit v"
  define fp where "fp = drop 1 (dropWhile digit v)"
  have v: "v = ip @ dropWhile digit v" by (simp add: ip_def)
  have ip: "list_all digit ip"
    unfolding ip_def by (simp add: list_all_iff) (meson set_takeWhileD)
  have fp: "list_all digit fp"
  proof (cases "dropWhile digit v")
    case Nil
    then show ?thesis by (simp add: fp_def del: dropWhile_eq_Nil_conv)
  next
    case (Cons c r)
    with assms show ?thesis by (simp add: fp_def numeric_pattern_def)
  qed
  have none: "v = [] \<or> v = ''.''" if "ip = []" "fp = []"
  proof (cases "dropWhile digit v")
    case Nil
    with v that show ?thesis by simp
  next
    case (Cons c r)
    with assms have "c = CHR ''.''" by (simp add: numeric_pattern_def)
    moreover from Cons that have "r = []" by (simp add: fp_def)
    ultimately show ?thesis using v that Cons by simp
  qed
  have value_nonneg: "0 \<le> real_of_int (decimal ip) + real_of_int (decimal fp) / 10 ^ length fp"
    using decimal_nonneg [OF ip] decimal_nonneg [OF fp] by simp
  have dot: "Number ''.'' = NaN"
    by (simp add: Number_def digit_def)
  have other: "\<exists>x\<ge>0. Number v = Fin x" if "v \<noteq> ''.''"
  proof (cases "ip = [] \<and> fp = []")
    case True
    with none that have "v = []" by blast
    then show ?thesis by (simp add: Number_def)
  next
    case False
    have "Number v =
        (if ip = [] \<and> fp = [] then (if v = [] then Fin 0 else NaN)
         else Fin (real_of_int (decimal ip) + real_of_int (decimal fp) / 10 ^ length fp))"
      by (simp only: Number_def Let_def ip_def fp_def)
    with False have "Number v
        = Fin (real_of_int (decimal ip) + real_of_int (decimal fp) / 10 ^ length fp)"
      by (simp only: if_False)
    with value_nonneg show ?thesis by blast
  qed
  from dot other show ?thesis by blast
qed

text \<open>
  A rejected text leaves every hook but \<open>showResult\<close> as it was; an accepted one sets
  the field. \<^verbatim>\<open>12.3.4\<close> is rejected.
\<close>

lemma handleInputChange_rejected:
  "v \<noteq> [] \<Longrightarrow> \<not> numeric_pattern v \<Longrightarrow> handleInputChange setter v s = s\<lparr>showResult := False\<rparr>"
  by (simp add: handleInputChange_def)

lemma handleInputChange_accepted:
  "v = [] \<or> numeric_pattern v \<Longrightarrow>
   handleInputChange setter v s
     = (setter (if v = [] then Empty else Num (Number v)) s)\<lparr>showResult := False\<rparr>"
  by (simp add: handleInputChange_def)

lemma malformed_text_rejected:
  "\<not> numeric_pattern ''12.3.4''
   \<and> handleInputChange setWeightInput ''12.3.4'' bmi_example = bmi_example\<lparr>showResult := False\<rparr>"
  by (simp add: handleInputChange_def numeric_pattern_def digit_def)

end
